theory Spec2Isabelle
  imports Complex_Main "HOL-Library.AList"
begin

section \<open>Values, columns and tables (package db)\<close>

text \<open>
  A cell of a row is a Go \<open>interface{}\<close>. The dynamic types that occur are the ones
  \<open>validateValueType\<close> switches on (\<open>int\<close>, \<open>float64\<close>, \<open>string\<close>) and the
  other scalars that encoding/json decodes into an \<open>interface{}\<close> (\<open>bool\<close>, \<open>nil\<close>).
  A \<open>float64\<close> is modelled by the rational number it denotes. JSON arrays and objects
  as cell values are outside the model.
\<close>

datatype val = VInt int | VFloat rat | VString string | VBool bool | VNil

text \<open>\<open>type ColumnType int\<close> with \<open>TypeInt = iota\<close> and \<open>TypeString\<close>.\<close>

type_synonym ColumnType = int

abbreviation TypeInt :: ColumnType where "TypeInt \<equiv> 0"
abbreviation TypeString :: ColumnType where "TypeString \<equiv> 1"

record Column =
  cName :: string
  cType :: ColumnType

text \<open>A row is a \<open>map[string]interface{}\<close>; a missing key reads as \<open>nil\<close>.\<close>

type_synonym row = "string \<rightharpoonup> val"

record Table =
  tName :: string
  tColumns :: "Column list"
  tRows :: "row list"

text \<open>
  The errors of the package are \<open>fmt.Errorf\<close> strings; each construction site is one
  constructor, named after the error kind of the specification, and \<open>message\<close> below
  renders the string.
\<close>

datatype verr =
    ExpectedIntegerGotFloat
  | ExpectedInt string
  | ExpectedString string
  | UnsupportedColumnType int

datatype error =
    MissingColumn string
  | TypeMismatch string verr
  | NotFound
  | DuplicateTable string
  | TableNotFound string
  | IOError string
  | DecodeError string

text \<open>\<open>reflect.TypeOf(val)\<close> as \<open>%v\<close> prints it.\<close>

fun go_type_name :: "val \<Rightarrow> string" where
  "go_type_name (VInt _) = ''int''"
| "go_type_name (VFloat _) = ''float64''"
| "go_type_name (VString _) = ''string''"
| "go_type_name (VBool _) = ''bool''"
| "go_type_name VNil = ''<nil>''"

text \<open>
  \<open>int(v)\<close> for a \<open>float64\<close>: truncation towards zero when the result fits the 64-bit
  \<open>int\<close>. Outside that range Go leaves the result to the implementation; the value
  taken here is the one of amd64, the smallest \<open>int\<close>.
\<close>

definition go_int_of_float64 :: "rat \<Rightarrow> int" where
  "go_int_of_float64 v =
     (if - (2 ^ 63) \<le> v \<and> v < 2 ^ 63
      then (if 0 \<le> v then \<lfloor>v\<rfloor> else \<lceil>v\<rceil>)
      else - (2 ^ 63))"

text \<open>
  \<open>validateValueType\<close>; \<open>None\<close> is the \<open>nil\<close> error. In \<open>v == float64(int(v))\<close> the
  integer converted back is the truncation of a \<open>float64\<close> (or the smallest \<open>int\<close>), which
  a \<open>float64\<close> holds exactly, so the conversion back is the embedding.
\<close>

definition validateValueType :: "Column \<Rightarrow> val \<Rightarrow> verr option" where
  "validateValueType col val =
     (if cType col = TypeInt then
        (case val of
           VInt _ \<Rightarrow> None
         | VFloat v \<Rightarrow>
             (if v = of_int (go_int_of_float64 v) then None
              else Some ExpectedIntegerGotFloat)
         | _ \<Rightarrow> Some (ExpectedInt (go_type_name val)))
      else if cType col = TypeString then
        (case val of
           VString _ \<Rightarrow> None
         | _ \<Rightarrow> Some (ExpectedString (go_type_name val)))
      else Some (UnsupportedColumnType (cType col)))"

subsection \<open>Insert\<close>

text \<open>The loop over \<open>t.Columns\<close> that fills the new row, with its two early returns.\<close>

fun Insert_loop :: "Column list \<Rightarrow> row \<Rightarrow> row \<Rightarrow> error + row" where
  "Insert_loop [] vals r = Inr r"
| "Insert_loop (col # cols) vals r =
     (case vals (cName col) of
        None \<Rightarrow> Inl (MissingColumn (cName col))
      | Some v \<Rightarrow>
          (case validateValueType col v of
             Some e \<Rightarrow> Inl (TypeMismatch (cName col) e)
           | None \<Rightarrow> Insert_loop cols vals (r(cName col \<mapsto> v))))"

text \<open>The result is the returned error (\<open>None\<close> for \<open>nil\<close>) and the table afterwards.\<close>

definition Insert :: "row \<Rightarrow> Table \<Rightarrow> error option \<times> Table" where
  "Insert vals t =
     (case Insert_loop (tColumns t) vals Map.empty of
        Inl e \<Rightarrow> (Some e, t)
      | Inr r \<Rightarrow> (None, t\<lparr>tRows := tRows t @ [r]\<rparr>))"

subsection \<open>Select\<close>

text \<open>
  A condition is a Go function value, which may be \<open>nil\<close> (\<open>None\<close>).
  \<open>cond_holds\<close> is the test \<open>condition == nil || condition(row)\<close> of Select and Update,
  \<open>cond_keeps\<close> the test \<open>condition == nil || !condition(row)\<close> of Delete.
\<close>

type_synonym condition = "(row \<Rightarrow> bool) option"

definition cond_holds :: "condition \<Rightarrow> row \<Rightarrow> bool" where
  "cond_holds c r = (case c of None \<Rightarrow> True | Some f \<Rightarrow> f r)"

definition cond_keeps :: "condition \<Rightarrow> row \<Rightarrow> bool" where
  "cond_keeps c r = (case c of None \<Rightarrow> True | Some f \<Rightarrow> \<not> f r)"

text \<open>
  The copy loop \<open>for k, v := range row { rowCopy[k] = v }\<close> builds a map equal to
  \<open>row\<close>; on values, the copy is the row. (The store model further down keeps the
  two maps apart.)
\<close>

fun Select_loop :: "condition \<Rightarrow> row list \<Rightarrow> row list \<Rightarrow> row list" where
  "Select_loop c [] result = result"
| "Select_loop c (r # rs) result =
     (if cond_holds c r then Select_loop c rs (result @ [r])
      else Select_loop c rs result)"

definition Select :: "condition \<Rightarrow> Table \<Rightarrow> row list" where
  "Select c t = Select_loop c (tRows t) []"

subsection \<open>Update\<close>

text \<open>The validation loop: only the declared columns are looked up in \<open>values\<close>.\<close>

fun Update_validate :: "Column list \<Rightarrow> row \<Rightarrow> error option" where
  "Update_validate [] vals = None"
| "Update_validate (col # cols) vals =
     (case vals (cName col) of
        None \<Rightarrow> Update_validate cols vals
      | Some v \<Rightarrow>
          (case validateValueType col v of
             Some e \<Rightarrow> Some (TypeMismatch (cName col) e)
           | None \<Rightarrow> Update_validate cols vals))"

text \<open>
  The update loop: \<open>for colName, val := range values { row[colName] = val }\<close> writes
  every key of \<open>values\<close> into a matching row, which is \<open>row ++ values\<close>. The flag
  \<open>updated\<close> is threaded through.
\<close>

fun Update_loop :: "condition \<Rightarrow> row \<Rightarrow> row list \<Rightarrow> bool \<Rightarrow> row list \<times> bool" where
  "Update_loop c vals [] updated = ([], updated)"
| "Update_loop c vals (r # rs) updated =
     (if cond_holds c r
      then (case Update_loop c vals rs True of (rs', u) \<Rightarrow> ((r ++ vals) # rs', u))
      else (case Update_loop c vals rs updated of (rs', u) \<Rightarrow> (r # rs', u)))"

text \<open>Update returns an error only (no count).\<close>

definition Update :: "condition \<Rightarrow> row \<Rightarrow> Table \<Rightarrow> error option \<times> Table" where
  "Update c vals t =
     (case Update_validate (tColumns t) vals of
        Some e \<Rightarrow> (Some e, t)
      | None \<Rightarrow>
          (case Update_loop c vals (tRows t) False of
             (rows', updated) \<Rightarrow>
               (if \<not> updated then (Some NotFound, t\<lparr>tRows := rows'\<rparr>)
                else (None, t\<lparr>tRows := rows'\<rparr>))))"

subsection \<open>Delete, RowCount, GetColumns\<close>

fun Delete_loop :: "condition \<Rightarrow> row list \<Rightarrow> row list \<Rightarrow> row list" where
  "Delete_loop c [] newRows = newRows"
| "Delete_loop c (r # rs) newRows =
     (if cond_keeps c r then Delete_loop c rs (newRows @ [r])
      else Delete_loop c rs newRows)"

text \<open>Delete returns \<open>(deletedCount, err)\<close>; the table is assigned only on success.\<close>

definition Delete :: "condition \<Rightarrow> Table \<Rightarrow> (int \<times> error option) \<times> Table" where
  "Delete c t =
     (let originalLen = int (length (tRows t));
          newRows = Delete_loop c (tRows t) [];
          deletedCount = originalLen - int (length newRows)
      in if deletedCount = 0 then ((0, Some NotFound), t)
         else ((deletedCount, None), t\<lparr>tRows := newRows\<rparr>))"


definition GetColumns :: "Table \<Rightarrow> Column list" where
  "GetColumns t = tColumns t"

section \<open>The database\<close>

text \<open>
  \<open>Database.tables\<close> is a \<open>map[string]*Table\<close>, kept as an association list with
  \<open>map_of\<close> for the lookup and \<open>AList.update\<close> for the assignment \<open>db.tables[k] = v\<close>.
  The order of the list stands for the order in which \<open>range\<close> visits the map, which Go
  leaves open: the statements below hold for every list, hence for every order.
\<close>

record Database =
  tables :: "(string \<times> Table) list"

definition NewDatabase :: Database where
  "NewDatabase = \<lparr>tables = []\<rparr>"

definition CreateTable :: "string \<Rightarrow> Column list \<Rightarrow> Database \<Rightarrow> error option \<times> Database" where
  "CreateTable name columns db =
     (case map_of (tables db) name of
        Some _ \<Rightarrow> (Some (DuplicateTable name), db)
      | None \<Rightarrow>
          (None, db\<lparr>tables :=
             AList.update name \<lparr>tName = name, tColumns = columns, tRows = []\<rparr> (tables db)\<rparr>))"

definition GetTable :: "string \<Rightarrow> Database \<Rightarrow> error + Table" where
  "GetTable name db =
     (case map_of (tables db) name of
        None \<Rightarrow> Inl (TableNotFound name)
      | Some table \<Rightarrow> Inr table)"

text \<open>
  \<open>GetTable\<close> returns a pointer, and the table methods mutate the table behind it. With
  tables as values, the table a method leaves is written back under the name it was
  found at.
\<close>

definition put_table :: "string \<Rightarrow> Table \<Rightarrow> Database \<Rightarrow> Database" where
  "put_table name t db = db\<lparr>tables := AList.update name t (tables db)\<rparr>"

record TableData =
  dName :: string
  dColumns :: "Column list"
  dRows :: "row list"

record TableInfo =
  iName :: string
  iColumns :: "(string \<times> string) list"

definition GetTableInfo :: "string \<Rightarrow> Database \<Rightarrow> error + TableInfo" where
  "GetTableInfo name db =
     (case map_of (tables db) name of
        None \<Rightarrow> Inl (TableNotFound name)
      | Some table \<Rightarrow>
          Inr \<lparr>iName = tName table,
               iColumns = map (\<lambda>col. (cName col, if cType col = TypeInt then ''int'' else ''string''))
                            (tColumns table)\<rparr>)"

subsection \<open>Files and the JSON codec\<close>

text \<open>
  The file system and encoding/json are not code of the repository. A path holds no file,
  a file that refuses to be opened or created, or a file with a content. A content is
  modelled by what \<open>decoder.Decode(&data)\<close> makes of it: an error, or the entries of the
  decoded \<open>map[string]TableData\<close>.
\<close>

datatype content = Malformed string | Doc "(string \<times> TableData) list"

datatype slot = NoFile | Locked | Stored content

type_synonym filesys = "string \<Rightarrow> slot"

text \<open>
  What a cell is after it was encoded and decoded again: an \<open>int\<close> is written in decimal,
  and every JSON number is decoded into an \<open>interface{}\<close> as the nearest \<open>float64\<close>
  (53 bits of mantissa, ties to even).
\<close>

function bit_length :: "int \<Rightarrow> nat" where
  "bit_length a = (if a \<le> 0 then 0 else Suc (bit_length (a div 2)))"
  by pat_completeness auto
termination
  by (relation "measure nat") auto

declare bit_length.simps [simp del]

definition nearest_float64 :: "int \<Rightarrow> rat" where
  "nearest_float64 n =
     (let a = \<bar>n\<bar> in
      if a < 2 ^ 53 then of_int n
      else
        (let e = bit_length a - 53;
             q = a div 2 ^ e;
             r = a mod 2 ^ e;
             h = 2 ^ (e - 1);
             q' = (if h < r \<or> (r = h \<and> odd q) then q + 1 else q)
         in of_int (sgn n * (q' * 2 ^ e))))"

fun json_val :: "val \<Rightarrow> val" where
  "json_val (VInt n) = VFloat (nearest_float64 n)"
| "json_val v = v"

definition json_row :: "row \<Rightarrow> row" where
  "json_row r = map_option json_val \<circ> r"

definition json_table :: "TableData \<Rightarrow> TableData" where
  "json_table td = td\<lparr>dRows := map json_row (dRows td)\<rparr>"

subsection \<open>SaveToDisk and LoadFromDisk\<close>

fun Save_loop :: "(string \<times> Table) list \<Rightarrow> (string \<times> TableData) list \<Rightarrow> (string \<times> TableData) list" where
  "Save_loop [] data = data"
| "Save_loop ((name, table) # rest) data =
     Save_loop rest
       (AList.update name
          \<lparr>dName = tName table, dColumns = tColumns table, dRows = tRows table\<rparr> data)"

text \<open>\<open>os.Create\<close> fails or truncates; the encoder then writes \<open>data\<close>.\<close>

definition SaveToDisk :: "string \<Rightarrow> Database \<Rightarrow> filesys \<Rightarrow> error option \<times> filesys" where
  "SaveToDisk filename db fs =
     (case fs filename of
        Locked \<Rightarrow> (Some (IOError (''open '' @ filename @ '': permission denied'')), fs)
      | _ \<Rightarrow>
          (let data = Save_loop (tables db) []
           in (None, fs(filename := Stored (Doc (map (\<lambda>(k, td). (k, json_table td)) data))))))"

fun Load_loop :: "(string \<times> TableData) list \<Rightarrow> (string \<times> Table) list \<Rightarrow> (string \<times> Table) list" where
  "Load_loop [] ts = ts"
| "Load_loop ((k, tableData) # rest) ts =
     Load_loop rest
       (AList.update (dName tableData)
          \<lparr>tName = dName tableData, tColumns = dColumns tableData, tRows = dRows tableData\<rparr> ts)"

definition LoadFromDisk :: "string \<Rightarrow> Database \<Rightarrow> filesys \<Rightarrow> error option \<times> Database" where
  "LoadFromDisk filename db fs =
     (case fs filename of
        NoFile \<Rightarrow> (Some (IOError (''open '' @ filename @ '': no such file or directory'')), db)
      | Locked \<Rightarrow> (Some (IOError (''open '' @ filename @ '': permission denied'')), db)
      | Stored (Malformed msg) \<Rightarrow> (Some (DecodeError msg), db)
      | Stored (Doc data) \<Rightarrow> (None, db\<lparr>tables := Load_loop data []\<rparr>))"

section \<open>The command protocol (package protocol) and the server's dispatch\<close>

type_synonym CommandType = int

abbreviation CmdCreateTable :: CommandType where "CmdCreateTable \<equiv> 0"
abbreviation CmdInsert :: CommandType where "CmdInsert \<equiv> 1"
abbreviation CmdSelect :: CommandType where "CmdSelect \<equiv> 2"
abbreviation CmdUpdate :: CommandType where "CmdUpdate \<equiv> 3"
abbreviation CmdDelete :: CommandType where "CmdDelete \<equiv> 4"
abbreviation CmdSaveToDisk :: CommandType where "CmdSaveToDisk \<equiv> 5"
abbreviation CmdLoadFromDisk :: CommandType where "CmdLoadFromDisk \<equiv> 6"
abbreviation CmdGetTableInfo :: CommandType where "CmdGetTableInfo \<equiv> 7"

text \<open>
  \<open>Command.Payload\<close> is an \<open>interface{}\<close>: \<open>nil\<close>, a string, or one of the payload
  structs, whose fields are the constructor's arguments in the order of the struct.
  \<open>Conditions\<close> maps are association lists, since the handlers range over them.
\<close>

datatype payload =
    PNil
  | PString string
  | CreateTablePayload string "(string \<times> string) list"
  | InsertPayload string row
  | SelectPayload string "(string \<times> val) list"
  | UpdatePayload string row "(string \<times> val) list"
  | DeletePayload string "(string \<times> val) list"
  | GetTableInfoPayload string

record Command =
  Type :: CommandType
  Payload :: payload

datatype data = DNil | DRows "row list" | DString string | DTableInfo TableInfo

record Response =
  Success :: bool
  Data :: data
  Error :: string

subsection \<open>Command.UnmarshalJSON\<close>

text \<open>
  The bytes of a request are modelled by what the first \<open>json.Unmarshal(data, &raw)\<close>
  makes of them: an error, or the type tag and the raw bytes of the payload. The decoding
  of a raw payload into the struct of a command type is the library's, and a parameter
  \<open>dec\<close> here. The receiver is a fresh \<open>Command\<close>, so its \<open>Payload\<close> is \<open>nil\<close> unless a
  branch of the switch assigns it.
\<close>

datatype wire = BadEnvelope string | Envelope CommandType string

definition UnmarshalJSON ::
    "(CommandType \<Rightarrow> string \<Rightarrow> string + payload) \<Rightarrow> wire \<Rightarrow> string + Command" where
  "UnmarshalJSON dec w =
     (case w of
        BadEnvelope e \<Rightarrow> Inl e
      | Envelope ty raw \<Rightarrow>
          (if ty = CmdCreateTable then
             (case dec ty raw of
                Inl e \<Rightarrow> Inl (''invalid create table payload: '' @ e)
              | Inr p \<Rightarrow> Inr \<lparr>Type = ty, Payload = p\<rparr>)
           else if ty = CmdInsert then
             (case dec ty raw of
                Inl e \<Rightarrow> Inl (''invalid insert payload: '' @ e)
              | Inr p \<Rightarrow> Inr \<lparr>Type = ty, Payload = p\<rparr>)
           else if ty = CmdSelect then
             (case dec ty raw of
                Inl e \<Rightarrow> Inl (''invalid select payload: '' @ e)
              | Inr p \<Rightarrow> Inr \<lparr>Type = ty, Payload = p\<rparr>)
           else if ty = CmdUpdate then
             (case dec ty raw of
                Inl e \<Rightarrow> Inl (''invalid update payload: '' @ e)
              | Inr p \<Rightarrow> Inr \<lparr>Type = ty, Payload = p\<rparr>)
           else if ty = CmdDelete then
             (case dec ty raw of
                Inl e \<Rightarrow> Inl (''invalid delete payload: '' @ e)
              | Inr p \<Rightarrow> Inr \<lparr>Type = ty, Payload = p\<rparr>)
           else if ty = CmdGetTableInfo then
             (case dec ty raw of
                Inl e \<Rightarrow> Inl (''invalid get table info payload: '' @ e)
              | Inr p \<Rightarrow> Inr \<lparr>Type = ty, Payload = p\<rparr>)
           else Inr \<lparr>Type = ty, Payload = PNil\<rparr>))"

subsection \<open>Error strings\<close>

definition digit_char :: "nat \<Rightarrow> char" where
  "digit_char d =
     (if d = 0 then CHR ''0'' else if d = 1 then CHR ''1'' else if d = 2 then CHR ''2''
      else if d = 3 then CHR ''3'' else if d = 4 then CHR ''4'' else if d = 5 then CHR ''5''
      else if d = 6 then CHR ''6'' else if d = 7 then CHR ''7'' else if d = 8 then CHR ''8''
      else CHR ''9'')"

fun show_nat :: "nat \<Rightarrow> string" where
  "show_nat n = (if n < 10 then [digit_char n] else show_nat (n div 10) @ [digit_char (n mod 10)])"

declare show_nat.simps [simp del]

definition show_int :: "int \<Rightarrow> string" where
  "show_int i = (if i < 0 then ''-'' @ show_nat (nat (- i)) else show_nat (nat i))"

fun verr_message :: "verr \<Rightarrow> string" where
  "verr_message ExpectedIntegerGotFloat = ''expected integer value, got float''"
| "verr_message (ExpectedInt ty) = ''expected int, got '' @ ty"
| "verr_message (ExpectedString ty) = ''expected string, got '' @ ty"
| "verr_message (UnsupportedColumnType n) = ''unsupported column type: '' @ show_int n"

fun message :: "error \<Rightarrow> string" where
  "message (MissingColumn c) = ''missing value for column '' @ c"
| "message (TypeMismatch c e) = ''column '' @ c @ '': '' @ verr_message e"
| "message NotFound = ''no matching records found''"
| "message (DuplicateTable n) = ''table '' @ n @ '' already exists''"
| "message (TableNotFound n) = ''table '' @ n @ '' does not exist''"
| "message (IOError m) = m"
| "message (DecodeError m) = m"

subsection \<open>The handlers of server/main.go\<close>

text \<open>
  The state a handler works on is the database and the file system; a handler returns
  its response and the state it leaves. Log lines are not modelled.
\<close>

type_synonym state = "Database \<times> filesys"

definition DEFAULT_DB_FILE :: string where
  "DEFAULT_DB_FILE = ''database.json''"

definition failure :: "string \<Rightarrow> Response" where
  "failure msg = \<lparr>Success = False, Data = DNil, Error = msg\<rparr>"

definition success :: "data \<Rightarrow> Response" where
  "success d = \<lparr>Success = True, Data = d, Error = []\<rparr>"

definition autoSave :: "state \<Rightarrow> state" where
  "autoSave st = (case st of (db, fs) \<Rightarrow> (db, snd (SaveToDisk DEFAULT_DB_FILE db fs)))"

text \<open>\<open>os.Stat\<close>, \<open>os.Rename\<close> and \<open>os.Remove\<close>; their errors are only logged.\<close>

definition os_Stat :: "string \<Rightarrow> filesys \<Rightarrow> bool" where
  "os_Stat p fs = (fs p \<noteq> NoFile)"

definition os_Rename :: "string \<Rightarrow> string \<Rightarrow> filesys \<Rightarrow> filesys" where
  "os_Rename old new fs =
     (case fs old of
        Stored c \<Rightarrow> (if fs new = Locked then fs else fs(old := NoFile, new := Stored c))
      | _ \<Rightarrow> fs)"

definition os_Remove :: "string \<Rightarrow> filesys \<Rightarrow> filesys" where
  "os_Remove p fs = (case fs p of Stored c \<Rightarrow> fs(p := NoFile) | _ \<Rightarrow> fs)"

text \<open>The closure the handlers build from \<open>Conditions\<close>; \<open>row[k]\<close> of a missing key is \<open>nil\<close>.\<close>

definition row_get :: "row \<Rightarrow> string \<Rightarrow> val" where
  "row_get r k = (case r k of None \<Rightarrow> VNil | Some v \<Rightarrow> v)"

fun conditions_hold :: "(string \<times> val) list \<Rightarrow> row \<Rightarrow> bool" where
  "conditions_hold [] r = True"
| "conditions_hold ((k, v) # kvs) r =
     (if row_get r k \<noteq> v then False else conditions_hold kvs r)"

fun convert_columns :: "(string \<times> string) list \<Rightarrow> string + Column list" where
  "convert_columns [] = Inr []"
| "convert_columns ((name, ty) # cols) =
     (if ty = ''int'' then
        (case convert_columns cols of
           Inl e \<Rightarrow> Inl e
         | Inr cs \<Rightarrow> Inr (\<lparr>cName = name, cType = TypeInt\<rparr> # cs))
      else if ty = ''string'' then
        (case convert_columns cols of
           Inl e \<Rightarrow> Inl e
         | Inr cs \<Rightarrow> Inr (\<lparr>cName = name, cType = TypeString\<rparr> # cs))
      else Inl (''invalid column type: '' @ ty))"

definition handleCreateTable :: "payload \<Rightarrow> state \<Rightarrow> Response \<times> state" where
  "handleCreateTable p st =
     (case st of (db, fs) \<Rightarrow>
        (case p of
           CreateTablePayload tableName cols \<Rightarrow>
             (case convert_columns cols of
                Inl e \<Rightarrow> (failure e, st)
              | Inr columns \<Rightarrow>
                  (case CreateTable tableName columns db of
                     (Some e, db') \<Rightarrow> (failure (message e), (db', fs))
                   | (None, db') \<Rightarrow> (success DNil, autoSave (db', fs))))
         | _ \<Rightarrow> (failure ''invalid payload'', st)))"

definition handleInsert :: "payload \<Rightarrow> state \<Rightarrow> Response \<times> state" where
  "handleInsert p st =
     (case st of (db, fs) \<Rightarrow>
        (case p of
           InsertPayload tableName vals \<Rightarrow>
             (case GetTable tableName db of
                Inl e \<Rightarrow> (failure (message e), st)
              | Inr table \<Rightarrow>
                  (case Insert vals table of
                     (Some e, table') \<Rightarrow> (failure (message e), (put_table tableName table' db, fs))
                   | (None, table') \<Rightarrow> (success DNil, autoSave (put_table tableName table' db, fs))))
         | _ \<Rightarrow> (failure ''invalid payload'', st)))"

definition handleSelect :: "payload \<Rightarrow> state \<Rightarrow> Response \<times> state" where
  "handleSelect p st =
     (case st of (db, fs) \<Rightarrow>
        (case p of
           SelectPayload tableName conds \<Rightarrow>
             (case GetTable tableName db of
                Inl e \<Rightarrow> (failure (message e), st)
              | Inr table \<Rightarrow> (success (DRows (Select (Some (conditions_hold conds)) table)), st))
         | _ \<Rightarrow> (failure ''invalid payload'', st)))"

definition handleUpdate :: "payload \<Rightarrow> state \<Rightarrow> Response \<times> state" where
  "handleUpdate p st =
     (case st of (db, fs) \<Rightarrow>
        (case p of
           UpdatePayload tableName vals conds \<Rightarrow>
             (case GetTable tableName db of
                Inl e \<Rightarrow> (failure (message e), st)
              | Inr table \<Rightarrow>
                  (case Update (Some (conditions_hold conds)) vals table of
                     (Some e, table') \<Rightarrow> (failure (message e), (put_table tableName table' db, fs))
                   | (None, table') \<Rightarrow> (success DNil, autoSave (put_table tableName table' db, fs))))
         | _ \<Rightarrow> (failure ''invalid payload'', st)))"

definition handleDelete :: "payload \<Rightarrow> state \<Rightarrow> Response \<times> state" where
  "handleDelete p st =
     (case st of (db, fs) \<Rightarrow>
        (case p of
           DeletePayload tableName conds \<Rightarrow>
             (case GetTable tableName db of
                Inl e \<Rightarrow> (failure (message e), st)
              | Inr table \<Rightarrow>
                  (case Delete (Some (conditions_hold conds)) table of
                     ((count, Some e), table') \<Rightarrow>
                       (failure (message e), (put_table tableName table' db, fs))
                   | ((count, None), table') \<Rightarrow>
                       (success (DString (''Deleted '' @ show_int count @ '' records'')),
                        autoSave (put_table tableName table' db, fs))))
         | _ \<Rightarrow> (failure ''invalid payload'', st)))"

definition handleSaveToDisk :: "state \<Rightarrow> Response \<times> state" where
  "handleSaveToDisk st =
     (case st of (db, fs) \<Rightarrow>
        (let backupFile = DEFAULT_DB_FILE @ ''.bak'';
             fs1 = (if os_Stat DEFAULT_DB_FILE fs then os_Rename DEFAULT_DB_FILE backupFile fs else fs)
         in (case SaveToDisk DEFAULT_DB_FILE db fs1 of
               (Some e, fs2) \<Rightarrow>
                 (failure (message e),
                  (db, if os_Stat backupFile fs2 then os_Rename backupFile DEFAULT_DB_FILE fs2 else fs2))
             | (None, fs2) \<Rightarrow> (success DNil, (db, os_Remove backupFile fs2)))))"

definition handleLoadFromDisk :: "payload \<Rightarrow> state \<Rightarrow> Response \<times> state" where
  "handleLoadFromDisk p st =
     (case st of (db, fs) \<Rightarrow>
        (case (if p \<noteq> PNil
               then (case p of PString s \<Rightarrow> Inr s | _ \<Rightarrow> Inl ''invalid filename'')
               else Inr DEFAULT_DB_FILE) of
           Inl e \<Rightarrow> (failure e, st)
         | Inr filename \<Rightarrow>
             (case LoadFromDisk filename db fs of
                (Some e, db') \<Rightarrow> (failure (''failed to load database: '' @ message e), (db', fs))
              | (None, db') \<Rightarrow> (success DNil, (db', fs)))))"

definition handleGetTableInfo :: "payload \<Rightarrow> state \<Rightarrow> Response \<times> state" where
  "handleGetTableInfo p st =
     (case st of (db, fs) \<Rightarrow>
        (case p of
           GetTableInfoPayload tableName \<Rightarrow>
             (case GetTableInfo tableName db of
                Inl e \<Rightarrow> (failure (message e), st)
              | Inr tableInfo \<Rightarrow> (success (DTableInfo tableInfo), st))
         | _ \<Rightarrow> (failure ''invalid payload'', st)))"

definition handleCommand :: "Command \<Rightarrow> state \<Rightarrow> Response \<times> state" where
  "handleCommand cmd st =
     (if Type cmd = CmdCreateTable then handleCreateTable (Payload cmd) st
      else if Type cmd = CmdInsert then handleInsert (Payload cmd) st
      else if Type cmd = CmdSelect then handleSelect (Payload cmd) st
      else if Type cmd = CmdUpdate then handleUpdate (Payload cmd) st
      else if Type cmd = CmdDelete then handleDelete (Payload cmd) st
      else if Type cmd = CmdSaveToDisk then handleSaveToDisk st
      else if Type cmd = CmdLoadFromDisk then handleLoadFromDisk (Payload cmd) st
      else if Type cmd = CmdGetTableInfo then handleGetTableInfo (Payload cmd) st
      else (\<lparr>Success = False, Data = DNil, Error = ''unknown command''\<rparr>, st))"

section \<open>The row invariant of the specification\<close>

text \<open>
  The specification has two kinds of value, Integer and Text. An Integer is a Go \<open>int\<close>,
  or a \<open>float64\<close> that holds a whole number of the range of \<open>int\<close> (how a JSON number
  arrives); a Text is a string. These definitions follow the specification's words; that
  \<open>validateValueType\<close> accepts exactly the matching kinds is a lemma below.
\<close>

fun is_Integer :: "val \<Rightarrow> bool" where
  "is_Integer (VInt _) = True"
| "is_Integer (VFloat v) = (v = of_int \<lfloor>v\<rfloor> \<and> - (2 ^ 63) \<le> v \<and> v < 2 ^ 63)"
| "is_Integer _ = False"

fun is_Text :: "val \<Rightarrow> bool" where
  "is_Text (VString _) = True"
| "is_Text _ = False"

definition kind_matches :: "ColumnType \<Rightarrow> val \<Rightarrow> bool" where
  "kind_matches ty v =
     (if ty = TypeInt then is_Integer v else if ty = TypeString then is_Text v else False)"

text \<open>
  What Insert makes of one declared column: the error of its loop body, or \<open>None\<close> when
  the column has a value that passes the validation.
\<close>

definition check_column :: "row \<Rightarrow> Column \<Rightarrow> error option" where
  "check_column vals col =
     (case vals (cName col) of
        None \<Rightarrow> Some (MissingColumn (cName col))
      | Some v \<Rightarrow>
          (case validateValueType col v of
             Some e \<Rightarrow> Some (TypeMismatch (cName col) e)
           | None \<Rightarrow> None))"

text \<open>
  A row fits a column list when its keys are the column names and the value under each
  column is of the column's kind.
\<close>

definition row_ok :: "Column list \<Rightarrow> row \<Rightarrow> bool" where
  "row_ok cols r =
     (dom r = cName ` set cols \<and>
      list_all (\<lambda>col. kind_matches (cType col) (row_get r (cName col))) cols)"

definition table_ok :: "Table \<Rightarrow> bool" where
  "table_ok t = list_all (row_ok (tColumns t)) (tRows t)"

definition db_ok :: "Database \<Rightarrow> bool" where
  "db_ok db = list_all (\<lambda>(name, t). table_ok t) (tables db)"

definition snapshot_ok :: "slot \<Rightarrow> bool" where
  "snapshot_ok s =
     (case s of
        Stored (Doc data) \<Rightarrow> list_all (\<lambda>(k, td). list_all (row_ok (dColumns td)) (dRows td)) data
      | _ \<Rightarrow> True)"

text \<open>
  The operations that build a catalog, as the handlers compose them: a table operation
  looks the table up with \<open>GetTable\<close> and works on it in place; when the lookup fails
  nothing changes. A load reads the file system of its moment, which is part of the step.
\<close>

datatype op =
    OpCreateTable string "Column list"
  | OpInsert string row
  | OpUpdate string condition row
  | OpDelete string condition
  | OpLoadFromDisk string filesys

fun apply_op :: "Database \<Rightarrow> op \<Rightarrow> Database" where
  "apply_op db (OpCreateTable name columns) = snd (CreateTable name columns db)"
| "apply_op db (OpInsert name vals) =
     (case GetTable name db of
        Inl e \<Rightarrow> db
      | Inr t \<Rightarrow> put_table name (snd (Insert vals t)) db)"
| "apply_op db (OpUpdate name c vals) =
     (case GetTable name db of
        Inl e \<Rightarrow> db
      | Inr t \<Rightarrow> put_table name (snd (Update c vals t)) db)"
| "apply_op db (OpDelete name c) =
     (case GetTable name db of
        Inl e \<Rightarrow> db
      | Inr t \<Rightarrow> put_table name (snd (Delete c t)) db)"
| "apply_op db (OpLoadFromDisk filename fs) = snd (LoadFromDisk filename db fs)"

definition run :: "op list \<Rightarrow> Database" where
  "run ops = foldl apply_op NewDatabase ops"

text \<open>
  The side conditions under which the operations keep the row invariant: an Update names
  declared columns only, and a loaded snapshot holds fitting rows.
\<close>

fun op_ok :: "Database \<Rightarrow> op \<Rightarrow> bool" where
  "op_ok db (OpUpdate name c vals) =
     (case GetTable name db of
        Inl e \<Rightarrow> True
      | Inr t \<Rightarrow> dom vals \<subseteq> cName ` set (tColumns t))"
| "op_ok db (OpLoadFromDisk filename fs) = snapshot_ok (fs filename)"
| "op_ok db _ = True"

fun ops_ok :: "Database \<Rightarrow> op list \<Rightarrow> bool" where
  "ops_ok db [] = True"
| "ops_ok db (x # xs) = (op_ok db x \<and> ops_ok (apply_op db x) xs)"



section \<open>Select on a store of row maps\<close>




section \<open>Lemmas about the loops\<close>

lemma trunc_eq_iff:
  fixes v :: rat
  shows "v = of_int (if 0 \<le> v then \<lfloor>v\<rfloor> else \<lceil>v\<rceil>) \<longleftrightarrow> v = of_int \<lfloor>v\<rfloor>"
proof
  assume "v = of_int (if 0 \<le> v then \<lfloor>v\<rfloor> else \<lceil>v\<rceil>)"
  then obtain z :: int where "v = of_int z" ..
  then show "v = of_int \<lfloor>v\<rfloor>" by simp
next
  assume "v = of_int \<lfloor>v\<rfloor>"
  then obtain z :: int where z: "v = of_int z" ..
  show "v = of_int (if 0 \<le> v then \<lfloor>v\<rfloor> else \<lceil>v\<rceil>)"
    unfolding z by simp
qed

lemma validateValueType_kind:
  "validateValueType col v = None \<longleftrightarrow> kind_matches (cType col) v"
proof (cases v)
  case (VFloat x)
  have "x = of_int (go_int_of_float64 x) \<longleftrightarrow> x = of_int \<lfloor>x\<rfloor> \<and> - (2 ^ 63) \<le> x \<and> x < 2 ^ 63"
  proof (cases "- (2 ^ 63) \<le> x \<and> x < 2 ^ 63")
    case True
    then show ?thesis
      using trunc_eq_iff [of x] by (simp add: go_int_of_float64_def)
  next
    case False
    then show ?thesis
      by (auto simp: go_int_of_float64_def)
  qed
  with VFloat show ?thesis
    by (simp add: validateValueType_def kind_matches_def)
qed (simp_all add: validateValueType_def kind_matches_def)

lemma Insert_loop_find:
  "Insert_loop cols vals r =
     (case find (\<lambda>col. check_column vals col \<noteq> None) cols of
        None \<Rightarrow> Inr (r ++ (vals |` (cName ` set cols)))
      | Some col \<Rightarrow> Inl (the (check_column vals col)))"
proof (induction cols arbitrary: r)
  case Nil
  then show ?case by simp
next
  case (Cons col cols)
  show ?case
  proof (cases "check_column vals col")
    case (Some e)
    then show ?thesis
      by (auto simp: check_column_def split: option.splits)
  next
    case None
    then obtain v where v: "vals (cName col) = Some v" "validateValueType col v = None"
      by (auto simp: check_column_def split: option.splits)
    have eq: "(r(cName col \<mapsto> v)) ++ (vals |` (cName ` set cols)) = r ++ (vals |` (cName ` set (col # cols)))"
      using v by (auto simp: fun_eq_iff map_add_def restrict_map_def split: option.splits)
    have "Insert_loop (col # cols) vals r = Insert_loop cols vals (r(cName col \<mapsto> v))"
      using v by simp
    also have "\<dots> = (case find (\<lambda>col. check_column vals col \<noteq> None) cols of
        None \<Rightarrow> Inr ((r(cName col \<mapsto> v)) ++ (vals |` (cName ` set cols)))
      | Some c \<Rightarrow> Inl (the (check_column vals c)))"
      by (rule Cons.IH)
    also have "\<dots> = (case find (\<lambda>col. check_column vals col \<noteq> None) (col # cols) of
        None \<Rightarrow> Inr (r ++ (vals |` (cName ` set (col # cols))))
      | Some c \<Rightarrow> Inl (the (check_column vals c)))"
      unfolding eq using None by simp
    finally show ?thesis .
  qed
qed

lemma Insert_find:
  "Insert vals t =
     (case find (\<lambda>col. check_column vals col \<noteq> None) (tColumns t) of
        None \<Rightarrow> (None, t\<lparr>tRows := tRows t @ [vals |` (cName ` set (tColumns t))]\<rparr>)
      | Some col \<Rightarrow> (check_column vals col, t))"
proof (cases "find (\<lambda>col. check_column vals col \<noteq> None) (tColumns t)")
  case None
  then show ?thesis by (simp add: Insert_def Insert_loop_find)
next
  case (Some col)
  then have "check_column vals col \<noteq> None"
    by (auto simp: find_Some_iff)
  with Some show ?thesis by (auto simp: Insert_def Insert_loop_find)
qed

lemma check_column_None:
  "check_column vals col = None \<longleftrightarrow> (\<exists>v. vals (cName col) = Some v \<and> kind_matches (cType col) v)"
  by (auto simp: check_column_def validateValueType_kind [symmetric] split: option.splits)

lemma check_column_Missing:
  "(\<exists>n. check_column vals col = Some (MissingColumn n)) \<longleftrightarrow> vals (cName col) = None"
  by (auto simp: check_column_def split: option.splits)

lemma check_column_Mismatch:
  "(\<exists>n e. check_column vals col = Some (TypeMismatch n e)) \<longleftrightarrow>
     (\<exists>v. vals (cName col) = Some v \<and> \<not> kind_matches (cType col) v)"
  by (auto simp: check_column_def validateValueType_kind [symmetric] split: option.splits)

lemma Select_loop_filter: "Select_loop c rs acc = acc @ filter (cond_holds c) rs"
  by (induction rs arbitrary: acc) auto

lemma Delete_loop_filter: "Delete_loop c rs acc = acc @ filter (cond_keeps c) rs"
  by (induction rs arbitrary: acc) auto

lemma Update_loop_map:
  "Update_loop c vals rs u =
     (map (\<lambda>r. if cond_holds c r then r ++ vals else r) rs, u \<or> (\<exists>r \<in> set rs. cond_holds c r))"
  by (induction rs arbitrary: u) auto

lemma Update_loop_no_match:
  "\<not> (\<exists>r \<in> set rs. cond_holds c r) \<Longrightarrow> map (\<lambda>r. if cond_holds c r then r ++ vals else r) rs = rs"
  by (induction rs) auto

lemma Update_validate_None:
  "Update_validate cols vals = None \<longleftrightarrow>
     (\<forall>col \<in> set cols. \<forall>v. vals (cName col) = Some v \<longrightarrow> kind_matches (cType col) v)"
  by (induction cols) (auto simp: validateValueType_kind [symmetric] split: option.splits)

lemma Update_validate_Some:
  "Update_validate cols vals = Some e \<Longrightarrow> \<exists>n ve. e = TypeMismatch n ve"
  by (induction cols) (auto split: option.splits)

lemma Update_valid:
  "Update_validate (tColumns t) vals = None \<Longrightarrow>
   Update c vals t =
     (if \<exists>r \<in> set (tRows t). cond_holds c r
      then (None, t\<lparr>tRows := map (\<lambda>r. if cond_holds c r then r ++ vals else r) (tRows t)\<rparr>)
      else (Some NotFound, t))"
  by (auto simp: Update_def Update_loop_map Update_loop_no_match)

lemma Update_invalid:
  "Update_validate (tColumns t) vals = Some e \<Longrightarrow> Update c vals t = (Some e, t)"
  by (simp add: Update_def)

section \<open>Lemmas about the catalog\<close>

lemma set_AList_update: "set (AList.update k v al) \<subseteq> insert (k, v) (set al)"
  by (induction al) auto

lemma list_all_AList_update:
  "list_all P al \<Longrightarrow> P (k, v) \<Longrightarrow> list_all P (AList.update k v al)"
  using set_AList_update [of k v al] by (auto simp: list_all_iff)

lemma GetTable_in_tables: "GetTable name db = Inr t \<Longrightarrow> (name, t) \<in> set (tables db)"
  by (auto simp: GetTable_def split: option.splits dest: map_of_SomeD)

lemma db_ok_put_table: "db_ok db \<Longrightarrow> table_ok t \<Longrightarrow> db_ok (put_table name t db)"
  by (simp add: db_ok_def put_table_def list_all_AList_update)

lemma db_ok_GetTable: "db_ok db \<Longrightarrow> GetTable name db = Inr t \<Longrightarrow> table_ok t"
  by (auto simp: db_ok_def list_all_iff dest!: GetTable_in_tables)

lemma row_ok_restrict:
  assumes "\<forall>col \<in> set cols. check_column vals col = None"
  shows "row_ok cols (vals |` (cName ` set cols))"
proof -
  have v: "\<exists>v. vals (cName col) = Some v \<and> kind_matches (cType col) v" if "col \<in> set cols" for col
    using assms that by (simp add: check_column_None)
  have "dom (vals |` (cName ` set cols)) = cName ` set cols"
    using v by (auto simp: restrict_map_def dom_def split: if_splits)
  moreover have "kind_matches (cType col) (row_get (vals |` (cName ` set cols)) (cName col))"
    if "col \<in> set cols" for col
    using v [OF that] that by (auto simp: row_get_def restrict_map_def)
  ultimately show ?thesis
    by (simp add: row_ok_def list_all_iff)
qed

lemma table_ok_Insert: "table_ok t \<Longrightarrow> table_ok (snd (Insert vals t))"
proof (cases "find (\<lambda>col. check_column vals col \<noteq> None) (tColumns t)")
  case None
  assume ok: "table_ok t"
  from None have "\<forall>col \<in> set (tColumns t). check_column vals col = None"
    by (auto simp: find_None_iff)
  then have "row_ok (tColumns t) (vals |` (cName ` set (tColumns t)))"
    by (rule row_ok_restrict)
  with ok None show ?thesis
    by (simp add: Insert_find table_ok_def)
next
  case (Some col)
  assume "table_ok t"
  with Some show ?thesis by (simp add: Insert_find)
qed

lemma row_ok_update:
  assumes r: "row_ok cols r" and d: "dom vals \<subseteq> cName ` set cols"
    and v: "Update_validate cols vals = None"
  shows "row_ok cols (r ++ vals)"
proof -
  have "dom (r ++ vals) = cName ` set cols"
    using r d by (auto simp: row_ok_def)
  moreover have "kind_matches (cType col) (row_get (r ++ vals) (cName col))" if "col \<in> set cols" for col
  proof (cases "vals (cName col)")
    case None
    then have "row_get (r ++ vals) (cName col) = row_get r (cName col)"
      by (simp add: row_get_def map_add_def)
    with r that show ?thesis by (simp add: row_ok_def list_all_iff)
  next
    case (Some x)
    then have "row_get (r ++ vals) (cName col) = x"
      by (simp add: row_get_def map_add_def)
    with v that Some show ?thesis by (simp add: Update_validate_None)
  qed
  ultimately show ?thesis by (simp add: row_ok_def list_all_iff)
qed

lemma table_ok_Update:
  assumes "table_ok t" "dom vals \<subseteq> cName ` set (tColumns t)"
  shows "table_ok (snd (Update c vals t))"
proof (cases "Update_validate (tColumns t) vals")
  case None
  with assms show ?thesis
    by (auto simp: Update_valid table_ok_def list_all_iff intro: row_ok_update)
next
  case (Some e)
  with assms show ?thesis by (simp add: Update_invalid)
qed

lemma Delete_Some:
  "Delete (Some f) t =
     (if filter f (tRows t) = [] then ((0, Some NotFound), t)
      else ((int (length (filter f (tRows t))), None), t\<lparr>tRows := filter (\<lambda>r. \<not> f r) (tRows t)\<rparr>))"
proof -
  have len: "length (tRows t) = length (filter f (tRows t)) + length (filter (\<lambda>r. \<not> f r) (tRows t))"
    by (rule sum_length_filter_compl [symmetric])
  have k: "cond_keeps (Some f) = (\<lambda>r. \<not> f r)"
    by (simp add: cond_keeps_def fun_eq_iff)
  show ?thesis
    using len by (auto simp: Delete_def Delete_loop_filter k Let_def)
qed

lemma Delete_None: "Delete None t = ((0, Some NotFound), t)"
  by (simp add: Delete_def Delete_loop_filter cond_keeps_def)

lemma table_ok_Delete: "table_ok t \<Longrightarrow> table_ok (snd (Delete c t))"
  by (cases c) (auto simp: Delete_None Delete_Some table_ok_def list_all_iff)

lemma db_ok_CreateTable: "db_ok db \<Longrightarrow> db_ok (snd (CreateTable name columns db))"
  by (auto simp: CreateTable_def db_ok_def table_ok_def list_all_AList_update split: option.splits)

lemma Load_loop_all:
  "list_all (\<lambda>(k, td). list_all (row_ok (dColumns td)) (dRows td)) data \<Longrightarrow>
   list_all (\<lambda>(name, t). table_ok t) ts \<Longrightarrow>
   list_all (\<lambda>(name, t). table_ok t) (Load_loop data ts)"
proof (induction data arbitrary: ts)
  case Nil
  then show ?case by simp
next
  case (Cons p data)
  obtain k td where p: "p = (k, td)" by (cases p)
  from Cons.prems p have "table_ok \<lparr>tName = dName td, tColumns = dColumns td, tRows = dRows td\<rparr>"
    by (simp add: table_ok_def)
  with Cons.prems(2) have "list_all (\<lambda>(name, t). table_ok t)
      (AList.update (dName td) \<lparr>tName = dName td, tColumns = dColumns td, tRows = dRows td\<rparr> ts)"
    by (simp add: list_all_AList_update)
  with Cons.IH Cons.prems(1) p show ?case by simp
qed

lemma db_ok_Load:
  "db_ok db \<Longrightarrow> snapshot_ok (fs filename) \<Longrightarrow> db_ok (snd (LoadFromDisk filename db fs))"
  by (auto simp: LoadFromDisk_def snapshot_ok_def db_ok_def Load_loop_all
           split: slot.splits content.splits)

lemma db_ok_apply_op: "db_ok db \<Longrightarrow> op_ok db x \<Longrightarrow> db_ok (apply_op db x)"
proof (cases x)
  case (OpCreateTable name columns)
  assume "db_ok db"
  with OpCreateTable show ?thesis by (simp add: db_ok_CreateTable)
next
  case (OpInsert name vals)
  assume "db_ok db"
  with OpInsert show ?thesis
    by (auto split: sum.splits intro!: db_ok_put_table table_ok_Insert dest: db_ok_GetTable)
next
  case (OpUpdate name c vals)
  assume "db_ok db" "op_ok db x"
  with OpUpdate show ?thesis
    by (auto split: sum.splits intro!: db_ok_put_table table_ok_Update dest: db_ok_GetTable)
next
  case (OpDelete name c)
  assume "db_ok db"
  with OpDelete show ?thesis
    by (auto split: sum.splits intro!: db_ok_put_table table_ok_Delete dest: db_ok_GetTable)
next
  case (OpLoadFromDisk filename fs)
  assume "db_ok db" "op_ok db x"
  with OpLoadFromDisk show ?thesis by (simp add: db_ok_Load)
qed

lemma db_ok_foldl: "db_ok db \<Longrightarrow> ops_ok db ops \<Longrightarrow> db_ok (foldl apply_op db ops)"
  by (induction ops arbitrary: db) (auto simp: db_ok_apply_op)

lemma db_ok_NewDatabase: "db_ok NewDatabase"
  by (simp add: db_ok_def NewDatabase_def)

lemma Select_filter: "Select c t = filter (cond_holds c) (tRows t)"
  by (simp add: Select_def Select_loop_filter)

lemmas eval_defs = run_def NewDatabase_def CreateTable_def GetTable_def put_table_def Insert_def
  Update_def Delete_def LoadFromDisk_def validateValueType_def go_int_of_float64_def
  cond_holds_def cond_keeps_def

section \<open>Lemmas about saving and loading\<close>

















section \<open>Lemmas about Select on the store\<close>





section \<open>Insert\<close>

text \<open>
  Claim C4, as stated: Insert fails with MissingColumn iff some declared column is absent
  from the input, and with TypeMismatch iff some provided value disagrees with its column.
  The loop returns at the first column that fails, so the two conditions do not exclude
  each other: below, column \<open>b\<close> is absent, and the error is the TypeMismatch of
  column \<open>a\<close>.
\<close>

theorem Insert_iff_counterexample:
  "fst (Insert [''a'' \<mapsto> VString ''x'']
         \<lparr>tName = ''t'',
          tColumns = [\<lparr>cName = ''a'', cType = TypeInt\<rparr>, \<lparr>cName = ''b'', cType = TypeInt\<rparr>],
          tRows = []\<rparr>) = Some (TypeMismatch ''a'' (ExpectedInt ''string'')) \<and>
   [''a'' \<mapsto> VString ''x''] ''b'' = None"
  by (simp add: Insert_def validateValueType_def)

text \<open>
  Claim C4, amended: Insert fails iff some declared column is absent from the input or has
  a value of the wrong kind; the error is the one of the first such column in the order of
  declaration, MissingColumn if that column is absent and TypeMismatch if its value is of
  the wrong kind (a float64 that is not a whole number is of the wrong kind for an Integer
  column); on success exactly one row is appended, the input restricted to the declared
  columns.
\<close>

theorem Insert_reports_first_offending_column:
  "Insert vals t =
     (case find (\<lambda>col. check_column vals col \<noteq> None) (tColumns t) of
        None \<Rightarrow> (None, t\<lparr>tRows := tRows t @ [vals |` (cName ` set (tColumns t))]\<rparr>)
      | Some col \<Rightarrow> (check_column vals col, t)) \<and>
   (fst (Insert vals t) = None \<longleftrightarrow>
      (\<forall>col \<in> set (tColumns t). \<exists>v. vals (cName col) = Some v \<and> kind_matches (cType col) v)) \<and>
   (\<forall>col. ((\<exists>n. check_column vals col = Some (MissingColumn n)) \<longleftrightarrow> vals (cName col) = None) \<and>
      ((\<exists>n e. check_column vals col = Some (TypeMismatch n e)) \<longleftrightarrow>
         (\<exists>v. vals (cName col) = Some v \<and> \<not> kind_matches (cType col) v))) \<and>
   (\<forall>col x. cType col = TypeInt \<and> vals (cName col) = Some (VFloat x) \<and> x \<noteq> of_int \<lfloor>x\<rfloor> \<longrightarrow>
      check_column vals col = Some (TypeMismatch (cName col) ExpectedIntegerGotFloat))"
proof -
  have ok: "fst (Insert vals t) = None \<longleftrightarrow>
      (\<forall>col \<in> set (tColumns t). \<exists>v. vals (cName col) = Some v \<and> kind_matches (cType col) v)"
  proof (cases "find (\<lambda>col. check_column vals col \<noteq> None) (tColumns t)")
    case None
    then have "\<forall>col \<in> set (tColumns t). check_column vals col = None"
      by (auto simp: find_None_iff)
    with None show ?thesis
      by (simp add: Insert_find check_column_None)
  next
    case (Some col)
    then have "col \<in> set (tColumns t)" "check_column vals col \<noteq> None"
      by (auto simp: find_Some_iff)
    with Some show ?thesis
      using check_column_None [of vals col] by (auto simp: Insert_find)
  qed
  have frac: "check_column vals col = Some (TypeMismatch (cName col) ExpectedIntegerGotFloat)"
    if "cType col = TypeInt" "vals (cName col) = Some (VFloat x)" "x \<noteq> of_int \<lfloor>x\<rfloor>" for col x
  proof -
    have "\<not> kind_matches (cType col) (VFloat x)"
      using that by (simp add: kind_matches_def)
    then have "validateValueType col (VFloat x) \<noteq> None"
      by (simp add: validateValueType_kind)
    then show ?thesis
      using that by (auto simp: check_column_def validateValueType_def split: if_splits)
  qed
  show ?thesis
  proof (intro conjI allI impI)
    show "Insert vals t =
     (case find (\<lambda>col. check_column vals col \<noteq> None) (tColumns t) of
        None \<Rightarrow> (None, t\<lparr>tRows := tRows t @ [vals |` (cName ` set (tColumns t))]\<rparr>)
      | Some col \<Rightarrow> (check_column vals col, t))"
      by (rule Insert_find)
  qed (use ok check_column_Missing check_column_Mismatch frac in simp_all)
qed

theorem Insert_reports_first_offending_column_witness:
  "fst (Insert [''id'' \<mapsto> VFloat 1, ''name'' \<mapsto> VString ''Alice'', ''extra'' \<mapsto> VBool True]
         \<lparr>tName = ''users'',
          tColumns = [\<lparr>cName = ''id'', cType = TypeInt\<rparr>, \<lparr>cName = ''name'', cType = TypeString\<rparr>],
          tRows = []\<rparr>) = None \<and>
   check_column [''id'' \<mapsto> VFloat (3 / 2)] \<lparr>cName = ''id'', cType = TypeInt\<rparr> =
     Some (TypeMismatch ''id'' ExpectedIntegerGotFloat)"
proof -
  let ?vals = "[''id'' \<mapsto> VFloat 1, ''name'' \<mapsto> VString ''Alice'', ''extra'' \<mapsto> VBool True]"
  let ?t = "\<lparr>tName = ''users'',
          tColumns = [\<lparr>cName = ''id'', cType = TypeInt\<rparr>, \<lparr>cName = ''name'', cType = TypeString\<rparr>],
          tRows = []\<rparr>"
  have cols: "\<forall>col \<in> set (tColumns ?t). \<exists>v. ?vals (cName col) = Some v \<and> kind_matches (cType col) v"
    by (simp add: kind_matches_def)
  have frac: "(3 / 2 :: rat) \<noteq> of_int \<lfloor>3 / 2 :: rat\<rfloor>"
    by code_simp
  have a: "fst (Insert ?vals ?t) = None"
    using Insert_reports_first_offending_column [of ?vals ?t] cols by blast
  let ?v2 = "[''id'' \<mapsto> VFloat (3 / 2)]"
  let ?c2 = "\<lparr>cName = ''id'', cType = TypeInt\<rparr>"
  have f: "\<forall>col x. cType col = TypeInt \<and> ?v2 (cName col) = Some (VFloat x) \<and> x \<noteq> of_int \<lfloor>x\<rfloor> \<longrightarrow>
      check_column ?v2 col = Some (TypeMismatch (cName col) ExpectedIntegerGotFloat)"
    by (rule conjunct2 [OF conjunct2 [OF conjunct2 [OF Insert_reports_first_offending_column
      [of ?v2 "\<lparr>tName = ''t'', tColumns = [], tRows = []\<rparr>"]]]])
  have pre: "cType ?c2 = TypeInt \<and> ?v2 (cName ?c2) = Some (VFloat (3 / 2)) \<and> (3 / 2 :: rat) \<noteq> of_int \<lfloor>3 / 2 :: rat\<rfloor>"
    using frac by simp
  have b: "check_column ?v2 ?c2 = Some (TypeMismatch ''id'' ExpectedIntegerGotFloat)"
    using f [rule_format, OF pre] by simp
  from a b show ?thesis by simp
qed

section \<open>Update\<close>

text \<open>
  Claim C2, as stated: a key of \<open>values\<close> that names no column makes Update return an
  error and mutate no row. The validation loop ranges over the declared columns, so such a
  key is never looked at: Update returns no error, and the update loop writes the key into
  every matching row.
\<close>

theorem Update_unknown_column_counterexample:
  "Update None [''bogus'' \<mapsto> VString ''x'']
     \<lparr>tName = ''users'', tColumns = [\<lparr>cName = ''id'', cType = TypeInt\<rparr>],
      tRows = [[''id'' \<mapsto> VFloat 1]]\<rparr> =
   (None,
    \<lparr>tName = ''users'', tColumns = [\<lparr>cName = ''id'', cType = TypeInt\<rparr>],
     tRows = [[''id'' \<mapsto> VFloat 1, ''bogus'' \<mapsto> VString ''x'']]\<rparr>)"
  by (simp add: Update_def cond_holds_def)

text \<open>
  Claim C2, amended: Update returns a TypeMismatch iff some declared column has a value of
  the wrong kind in \<open>values\<close>, and then no row is mutated (the table is left as it
  was), whatever else \<open>values\<close> holds; in particular a request with one valid field and
  one field of the wrong kind mutates no row.
\<close>

theorem Update_rejects_mismatch_before_mutation:
  "((\<exists>n e. fst (Update c vals t) = Some (TypeMismatch n e)) \<longleftrightarrow>
      (\<exists>col \<in> set (tColumns t). \<exists>v. vals (cName col) = Some v \<and> \<not> kind_matches (cType col) v)) \<and>
   ((\<exists>col \<in> set (tColumns t). \<exists>v. vals (cName col) = Some v \<and> \<not> kind_matches (cType col) v) \<longrightarrow>
      snd (Update c vals t) = t)"
proof (cases "Update_validate (tColumns t) vals")
  case None
  then have "fst (Update c vals t) = None \<or> fst (Update c vals t) = Some NotFound"
    by (simp add: Update_valid)
  with None show ?thesis
    by (auto simp: Update_validate_None)
next
  case (Some e)
  then have "\<not> (\<forall>col \<in> set (tColumns t). \<forall>v. vals (cName col) = Some v \<longrightarrow> kind_matches (cType col) v)"
    using Update_validate_None [of "tColumns t" vals] by simp
  with Some Update_validate_Some [OF Some] show ?thesis
    by (auto simp: Update_invalid)
qed

theorem Update_rejects_mismatch_before_mutation_witness:
  "(\<exists>n e. fst (Update None [''name'' \<mapsto> VString ''Bob'', ''id'' \<mapsto> VString ''x'']
       \<lparr>tName = ''users'',
        tColumns = [\<lparr>cName = ''id'', cType = TypeInt\<rparr>, \<lparr>cName = ''name'', cType = TypeString\<rparr>],
        tRows = [[''id'' \<mapsto> VFloat 1, ''name'' \<mapsto> VString ''Alice'']]\<rparr>) = Some (TypeMismatch n e)) \<and>
   snd (Update None [''name'' \<mapsto> VString ''Bob'', ''id'' \<mapsto> VString ''x'']
       \<lparr>tName = ''users'',
        tColumns = [\<lparr>cName = ''id'', cType = TypeInt\<rparr>, \<lparr>cName = ''name'', cType = TypeString\<rparr>],
        tRows = [[''id'' \<mapsto> VFloat 1, ''name'' \<mapsto> VString ''Alice'']]\<rparr>) =
     \<lparr>tName = ''users'',
        tColumns = [\<lparr>cName = ''id'', cType = TypeInt\<rparr>, \<lparr>cName = ''name'', cType = TypeString\<rparr>],
        tRows = [[''id'' \<mapsto> VFloat 1, ''name'' \<mapsto> VString ''Alice'']]\<rparr>"
proof -
  let ?vals = "[''name'' \<mapsto> VString ''Bob'', ''id'' \<mapsto> VString ''x'']"
  let ?t = "\<lparr>tName = ''users'',
        tColumns = [\<lparr>cName = ''id'', cType = TypeInt\<rparr>, \<lparr>cName = ''name'', cType = TypeString\<rparr>],
        tRows = [[''id'' \<mapsto> VFloat 1, ''name'' \<mapsto> VString ''Alice'']]\<rparr>"
  have bad: "\<exists>col \<in> set (tColumns ?t). \<exists>v. ?vals (cName col) = Some v \<and> \<not> kind_matches (cType col) v"
    by (simp add: kind_matches_def)
  show ?thesis
    using Update_rejects_mismatch_before_mutation [of None ?vals ?t] bad by blast
qed




section \<open>The row invariant\<close>

text \<open>
  Claim C1, as stated: in every catalog built by CreateTable, Insert, Update, Delete and
  LoadFromDisk, the keys of every row are the column names and every value is of its
  column's kind. An Update with a key that names no column writes that key into the
  matching rows, and LoadFromDisk installs the rows of the file as they are.
\<close>

theorem row_invariant_counterexample:
  "run [OpCreateTable ''users'' [\<lparr>cName = ''id'', cType = TypeInt\<rparr>],
        OpInsert ''users'' [''id'' \<mapsto> VFloat 1],
        OpUpdate ''users'' None [''bogus'' \<mapsto> VString ''x'']] =
     \<lparr>tables = [(''users'', \<lparr>tName = ''users'', tColumns = [\<lparr>cName = ''id'', cType = TypeInt\<rparr>],
                   tRows = [[''id'' \<mapsto> VFloat 1, ''bogus'' \<mapsto> VString ''x'']]\<rparr>)]\<rparr> \<and>
   ''bogus'' \<in> dom [''id'' \<mapsto> VFloat 1, ''bogus'' \<mapsto> VString ''x''] \<and>
   ''bogus'' \<notin> cName ` set [\<lparr>cName = ''id'', cType = TypeInt\<rparr>] \<and>
   run [OpLoadFromDisk ''database.json''
          ((\<lambda>_. NoFile)(''database.json'' := Stored (Doc [(''users'',
             \<lparr>dName = ''users'', dColumns = [\<lparr>cName = ''id'', cType = TypeInt\<rparr>],
              dRows = [[''id'' \<mapsto> VString ''one'']]\<rparr>)])))] =
     \<lparr>tables = [(''users'', \<lparr>tName = ''users'', tColumns = [\<lparr>cName = ''id'', cType = TypeInt\<rparr>],
                   tRows = [[''id'' \<mapsto> VString ''one'']]\<rparr>)]\<rparr> \<and>
   \<not> kind_matches TypeInt (VString ''one'')"
  by (simp add: eval_defs kind_matches_def)

text \<open>
  Claim C1, amended: in every catalog built by CreateTable, Insert, Delete, by Update calls
  whose \<open>values\<close> name declared columns only and by LoadFromDisk of snapshots whose rows
  fit their columns, every row of every table (and so every row that Select returns) has
  exactly the column names as keys and, under every column, a value of the column's kind.
\<close>

theorem checked_operations_keep_rows_fitting:
  assumes "ops_ok NewDatabase ops" and "GetTable name (run ops) = Inr t"
    and "r \<in> set (tRows t) \<or> r \<in> set (Select c t)"
  shows "dom r = cName ` set (tColumns t) \<and>
         (\<forall>col \<in> set (tColumns t). \<exists>v. r (cName col) = Some v \<and> kind_matches (cType col) v)"
proof -
  have "db_ok (run ops)"
    unfolding run_def using db_ok_NewDatabase assms(1) by (rule db_ok_foldl)
  then have "table_ok t"
    using assms(2) by (rule db_ok_GetTable)
  moreover have "r \<in> set (tRows t)"
    using assms(3) by (auto simp: Select_filter)
  ultimately have ok: "row_ok (tColumns t) r"
    by (simp add: table_ok_def list_all_iff)
  have "\<exists>v. r (cName col) = Some v \<and> kind_matches (cType col) v" if "col \<in> set (tColumns t)" for col
  proof -
    from ok that have k: "kind_matches (cType col) (row_get r (cName col))" and "cName col \<in> dom r"
      by (auto simp: row_ok_def list_all_iff)
    then show ?thesis by (auto simp: row_get_def)
  qed
  with ok show ?thesis by (simp add: row_ok_def)
qed

theorem checked_operations_keep_rows_fitting_witness:
  "ops_ok NewDatabase
     [OpCreateTable ''users'' [\<lparr>cName = ''id'', cType = TypeInt\<rparr>, \<lparr>cName = ''name'', cType = TypeString\<rparr>],
      OpInsert ''users'' [''id'' \<mapsto> VFloat 1, ''name'' \<mapsto> VString ''Alice''],
      OpUpdate ''users'' None [''name'' \<mapsto> VString ''Bob'']] \<and>
   GetTable ''users'' (run
     [OpCreateTable ''users'' [\<lparr>cName = ''id'', cType = TypeInt\<rparr>, \<lparr>cName = ''name'', cType = TypeString\<rparr>],
      OpInsert ''users'' [''id'' \<mapsto> VFloat 1, ''name'' \<mapsto> VString ''Alice''],
      OpUpdate ''users'' None [''name'' \<mapsto> VString ''Bob'']]) =
     Inr \<lparr>tName = ''users'',
          tColumns = [\<lparr>cName = ''id'', cType = TypeInt\<rparr>, \<lparr>cName = ''name'', cType = TypeString\<rparr>],
          tRows = [[''id'' \<mapsto> VFloat 1, ''name'' \<mapsto> VString ''Bob'']]\<rparr> \<and>
   dom [''id'' \<mapsto> VFloat 1, ''name'' \<mapsto> VString ''Bob''] =
     cName ` set [\<lparr>cName = ''id'', cType = TypeInt\<rparr>, \<lparr>cName = ''name'', cType = TypeString\<rparr>] \<and>
   kind_matches TypeString (VString ''Bob'')"
proof -
  let ?cols = "[\<lparr>cName = ''id'', cType = TypeInt\<rparr>, \<lparr>cName = ''name'', cType = TypeString\<rparr>]"
  let ?ops = "[OpCreateTable ''users'' ?cols,
      OpInsert ''users'' [''id'' \<mapsto> VFloat 1, ''name'' \<mapsto> VString ''Alice''],
      OpUpdate ''users'' None [''name'' \<mapsto> VString ''Bob'']]"
  let ?r = "[''id'' \<mapsto> VFloat 1, ''name'' \<mapsto> VString ''Bob'']"
  let ?t = "\<lparr>tName = ''users'', tColumns = ?cols, tRows = [?r]\<rparr>"
  have a: "ops_ok NewDatabase ?ops"
    by (simp add: eval_defs)
  have b: "GetTable ''users'' (run ?ops) = Inr ?t"
    by (simp add: eval_defs)
  have c: "?r \<in> set (tRows ?t) \<or> ?r \<in> set (Select None ?t)"
    by simp
  note th = checked_operations_keep_rows_fitting [OF a b c]
  from th have d: "dom ?r = cName ` set ?cols"
    by simp
  from th have "\<exists>v. ?r ''name'' = Some v \<and> kind_matches TypeString v"
    by simp
  then have e: "kind_matches TypeString (VString ''Bob'')"
    by simp
  from a b d e show ?thesis by blast
qed

section \<open>A failed load\<close>

text \<open>
  Claim C6: a LoadFromDisk that fails leaves the catalog as it was; it fails with an IOError
  when the file is missing or cannot be opened and with a DecodeError when the content is
  malformed. Only a successful load changes the catalog, and it replaces it wholesale by
  the tables of the file. The handler passes the failure on and leaves its state alone.
\<close>

theorem failed_Load_keeps_catalog:
  "(fst (LoadFromDisk filename db fs) \<noteq> None \<longrightarrow>
      snd (LoadFromDisk filename db fs) = db \<and>
      (case fs filename of
         Stored (Doc data) \<Rightarrow> False
       | Stored (Malformed msg) \<Rightarrow> fst (LoadFromDisk filename db fs) = Some (DecodeError msg)
       | _ \<Rightarrow> \<exists>msg. fst (LoadFromDisk filename db fs) = Some (IOError msg))) \<and>
   (fst (LoadFromDisk filename db fs) = None \<longrightarrow>
      (\<exists>data. fs filename = Stored (Doc data) \<and>
         snd (LoadFromDisk filename db fs) = \<lparr>tables = Load_loop data []\<rparr>)) \<and>
   (\<not> Success (fst (handleLoadFromDisk p (db, fs))) \<longrightarrow>
      snd (handleLoadFromDisk p (db, fs)) = (db, fs))"
proof -
  have h: "snd (handleLoadFromDisk p (db, fs)) = (db, fs)" if "\<not> Success (fst (handleLoadFromDisk p (db, fs)))"
    using that
    by (cases p; cases "fs DEFAULT_DB_FILE"; cases "fs (case p of PString s \<Rightarrow> s | _ \<Rightarrow> [])")
       (auto simp: handleLoadFromDisk_def LoadFromDisk_def failure_def success_def
             split: slot.splits content.splits)
  show ?thesis
    using h by (auto simp: LoadFromDisk_def split: slot.splits content.splits)
qed

theorem failed_Load_keeps_catalog_witness:
  "LoadFromDisk ''missing.json''
     \<lparr>tables = [(''users'', \<lparr>tName = ''users'', tColumns = [], tRows = []\<rparr>)]\<rparr> (\<lambda>_. NoFile) =
     (Some (IOError ''open missing.json: no such file or directory''),
      \<lparr>tables = [(''users'', \<lparr>tName = ''users'', tColumns = [], tRows = []\<rparr>)]\<rparr>) \<and>
   LoadFromDisk ''bad.json''
     \<lparr>tables = [(''users'', \<lparr>tName = ''users'', tColumns = [], tRows = []\<rparr>)]\<rparr>
     ((\<lambda>_. NoFile)(''bad.json'' := Stored (Malformed ''unexpected EOF''))) =
     (Some (DecodeError ''unexpected EOF''),
      \<lparr>tables = [(''users'', \<lparr>tName = ''users'', tColumns = [], tRows = []\<rparr>)]\<rparr>) \<and>
   LoadFromDisk ''good.json''
     \<lparr>tables = [(''users'', \<lparr>tName = ''users'', tColumns = [], tRows = []\<rparr>)]\<rparr>
     ((\<lambda>_. NoFile)(''good.json'' := Stored (Doc [(''t'', \<lparr>dName = ''t'', dColumns = [], dRows = []\<rparr>)]))) =
     (None, \<lparr>tables = [(''t'', \<lparr>tName = ''t'', tColumns = [], tRows = []\<rparr>)]\<rparr>) \<and>
   snd (handleLoadFromDisk (PString ''missing.json'')
     (\<lparr>tables = [(''users'', \<lparr>tName = ''users'', tColumns = [], tRows = []\<rparr>)]\<rparr>, \<lambda>_. NoFile)) =
     (\<lparr>tables = [(''users'', \<lparr>tName = ''users'', tColumns = [], tRows = []\<rparr>)]\<rparr>, \<lambda>_. NoFile)"
proof -
  let ?db = "\<lparr>tables = [(''users'', \<lparr>tName = ''users'', tColumns = [], tRows = []\<rparr>)]\<rparr>"
  let ?bad = "(\<lambda>_. NoFile)(''bad.json'' := Stored (Malformed ''unexpected EOF''))"
  let ?good = "(\<lambda>_. NoFile)(''good.json'' := Stored (Doc [(''t'', \<lparr>dName = ''t'', dColumns = [], dRows = []\<rparr>)]))"
  have f1: "fst (LoadFromDisk ''missing.json'' ?db (\<lambda>_. NoFile)) =
      Some (IOError ''open missing.json: no such file or directory'')"
    by (simp add: LoadFromDisk_def)
  have f2: "fst (LoadFromDisk ''bad.json'' ?db ?bad) \<noteq> None"
    by (simp add: LoadFromDisk_def)
  have f3: "fst (LoadFromDisk ''good.json'' ?db ?good) = None"
    by (simp add: LoadFromDisk_def)
  have f4: "\<not> Success (fst (handleLoadFromDisk (PString ''missing.json'') (?db, \<lambda>_. NoFile)))"
    by (simp add: handleLoadFromDisk_def LoadFromDisk_def failure_def)
  have a: "snd (LoadFromDisk ''missing.json'' ?db (\<lambda>_. NoFile)) = ?db"
    using failed_Load_keeps_catalog [of "''missing.json''" ?db "\<lambda>_. NoFile"] f1 by simp
  have b: "snd (LoadFromDisk ''bad.json'' ?db ?bad) = ?db \<and>
      fst (LoadFromDisk ''bad.json'' ?db ?bad) = Some (DecodeError ''unexpected EOF'')"
    using failed_Load_keeps_catalog [of "''bad.json''" ?db ?bad] f2 by simp
  have c: "snd (LoadFromDisk ''good.json'' ?db ?good) =
      \<lparr>tables = [(''t'', \<lparr>tName = ''t'', tColumns = [], tRows = []\<rparr>)]\<rparr>"
    using failed_Load_keeps_catalog [of "''good.json''" ?db ?good] f3 by simp
  have d: "snd (handleLoadFromDisk (PString ''missing.json'') (?db, \<lambda>_. NoFile)) = (?db, \<lambda>_. NoFile)"
    using failed_Load_keeps_catalog [of _ ?db "\<lambda>_. NoFile" "PString ''missing.json''"] f4 by blast
  from a b c d f1 f3 show ?thesis
    by (simp add: prod_eq_iff)
qed

section \<open>Delete\<close>



section \<open>Dispatch\<close>

text \<open>
  Claim C10: a command whose type tag is none of the eight defined ones is answered with
  \<open>success: false\<close>, no data and the error \<open>unknown command\<close>, and the database and the
  files stay as they were.
\<close>

theorem unknown_command_fails:
  "Type cmd \<notin> {CmdCreateTable, CmdInsert, CmdSelect, CmdUpdate, CmdDelete, CmdSaveToDisk,
       CmdLoadFromDisk, CmdGetTableInfo} \<Longrightarrow>
   handleCommand cmd st = (\<lparr>Success = False, Data = DNil, Error = ''unknown command''\<rparr>, st)"
  by (simp add: handleCommand_def)

theorem unknown_command_fails_witness:
  "handleCommand \<lparr>Type = 8, Payload = PString ''x''\<rparr> (NewDatabase, \<lambda>_. NoFile) =
     (\<lparr>Success = False, Data = DNil, Error = ''unknown command''\<rparr>, (NewDatabase, \<lambda>_. NoFile))"
  using unknown_command_fails [of "\<lparr>Type = 8, Payload = PString ''x''\<rparr>" "(NewDatabase, \<lambda>_. NoFile)"]
  by simp

section \<open>Saving and loading back\<close>




section \<open>Select\<close>



section \<open>The payload of a Load command\<close>

text \<open>
  Claim C9: a decoded Load command carries an optional string payload that names the file
  to load. \<open>handleLoadFromDisk\<close> takes a string payload as the file name, but the switch
  of \<open>Command.UnmarshalJSON\<close> has no case for \<open>LoadFromDisk\<close>: whatever the request
  holds, the decoded command has the payload \<open>nil\<close>, and the default file is loaded. Here
  the request names \<open>backup.json\<close>, which exists, and the load fails on the missing
  \<open>database.json\<close>; the same handler given the string loads the file.
\<close>

theorem Load_payload_is_dropped:
  "UnmarshalJSON dec (Envelope CmdLoadFromDisk (CHR 0x22 # ''backup.json'' @ [CHR 0x22])) =
     Inr \<lparr>Type = CmdLoadFromDisk, Payload = PNil\<rparr> \<and>
   handleCommand \<lparr>Type = CmdLoadFromDisk, Payload = PNil\<rparr>
     (NewDatabase,
      (\<lambda>_. NoFile)(''backup.json'' :=
         Stored (Doc [(''users'', \<lparr>dName = ''users'', dColumns = [], dRows = []\<rparr>)]))) =
     (\<lparr>Success = False, Data = DNil,
       Error = ''failed to load database: open database.json: no such file or directory''\<rparr>,
      (NewDatabase,
       (\<lambda>_. NoFile)(''backup.json'' :=
          Stored (Doc [(''users'', \<lparr>dName = ''users'', dColumns = [], dRows = []\<rparr>)])))) \<and>
   handleCommand \<lparr>Type = CmdLoadFromDisk, Payload = PString ''backup.json''\<rparr>
     (NewDatabase,
      (\<lambda>_. NoFile)(''backup.json'' :=
         Stored (Doc [(''users'', \<lparr>dName = ''users'', dColumns = [], dRows = []\<rparr>)]))) =
     (\<lparr>Success = True, Data = DNil, Error = []\<rparr>,
      (\<lparr>tables = [(''users'', \<lparr>tName = ''users'', tColumns = [], tRows = []\<rparr>)]\<rparr>,
       (\<lambda>_. NoFile)(''backup.json'' :=
          Stored (Doc [(''users'', \<lparr>dName = ''users'', dColumns = [], dRows = []\<rparr>)]))))"
  by (simp add: UnmarshalJSON_def handleCommand_def handleLoadFromDisk_def LoadFromDisk_def
      DEFAULT_DB_FILE_def NewDatabase_def failure_def success_def)

end
